theory Spec2Isabelle
  imports Complex_Main
begin

section \<open>JavaScript values and errors\<close>

text \<open>
  The server is one TypeScript file, \<^verbatim>\<open>src/index.ts\<close>, run by Node. Its handlers work on
  whatever \<^verbatim>\<open>response.json()\<close> returns: the TypeScript interfaces are casts and are not
  checked at run time. The values are therefore modelled as JavaScript has them.

  Strings are byte lists holding UTF-8. The string literals of the source that are not ASCII
  are written with the bytes the source file holds. Numbers are IEEE doubles; every finite
  double is a rational, so a finite number is its exact value in \<^typ>\<open>rat\<close>, and the two
  infinities (which \<^verbatim>\<open>JSON.parse\<close> yields for \<^verbatim>\<open>1e999\<close>) are constructors. Negative zero
  behaves like zero everywhere in this program and \<^verbatim>\<open>NaN\<close> reaches none of the handlers.
\<close>

datatype number = Fin rat | PosInfinity | NegInfinity

datatype js_value =
    JUndefined
  | JNull
  | JBool bool
  | JNumber number
  | JString string
  | JArray "js_value list"
  | JObject "(string \<times> js_value) list"

text \<open>A thrown value: an error object with its \<^verbatim>\<open>name\<close> and \<^verbatim>\<open>message\<close>.\<close>

datatype js_error = JsError (err_name: string) (err_message: string)

abbreviation TypeError :: "string \<Rightarrow> js_error" where
  "TypeError m \<equiv> JsError ''TypeError'' m"

abbreviation Error :: "string \<Rightarrow> js_error" where
  "Error m \<equiv> JsError ''Error'' m"

text \<open>
  What the program uses of the platform without defining it: \<^verbatim>\<open>Number::toString\<close> on the
  numbers that are not plain integers, \<^verbatim>\<open>JSON.stringify(value, null, space)\<close> on defined
  values and \<^verbatim>\<open>String.prototype.toUpperCase\<close>.
\<close>

record platform =
  numberToString :: "rat \<Rightarrow> string"
  jsonStringify :: "js_value \<Rightarrow> nat \<Rightarrow> string"
  toUpperCase :: "string \<Rightarrow> string"

subsection \<open>Sequencing computations that may throw\<close>

definition bind_r :: "js_error + 'a \<Rightarrow> ('a \<Rightarrow> js_error + 'b) \<Rightarrow> js_error + 'b" where
  "bind_r m f = (case m of Inl e \<Rightarrow> Inl e | Inr v \<Rightarrow> f v)"

text \<open>Evaluates left to right; the first throw is the result.\<close>

fun collect :: "(js_error + 'a) list \<Rightarrow> js_error + 'a list" where
  "collect [] = Inr []"
| "collect (m # ms) = bind_r m (\<lambda>v. bind_r (collect ms) (\<lambda>vs. Inr (v # vs)))"

subsection \<open>Truthiness, property reads, string conversion\<close>

fun truthy :: "js_value \<Rightarrow> bool" where
  "truthy JUndefined = False"
| "truthy JNull = False"
| "truthy (JBool b) = b"
| "truthy (JNumber n) = (n \<noteq> Fin 0)"
| "truthy (JString s) = (s \<noteq> [])"
| "truthy (JArray xs) = True"
| "truthy (JObject fs) = True"

text \<open>The operator \<^verbatim>\<open>a || b\<close>.\<close>

definition or_else :: "js_value \<Rightarrow> js_value \<Rightarrow> js_value" where
  "or_else a b = (if truthy a then a else b)"

text \<open>
  The read \<^verbatim>\<open>v.k\<close>, for the property names this program reads as data (none of them is
  on a prototype, \<^verbatim>\<open>length\<close> apart). An object parsed from JSON has its own keys only;
  the first entry of a key is the one in force. The length of a string is only ever compared
  with zero here, where bytes and UTF-16 code units agree. The messages are those of V8.
\<close>

fun get_prop :: "js_value \<Rightarrow> string \<Rightarrow> js_error + js_value" where
  "get_prop JUndefined k =
     Inl (TypeError (''Cannot read properties of undefined (reading '' @ [CHR 0x27] @ k @ [CHR 0x27] @ '')''))"
| "get_prop JNull k =
     Inl (TypeError (''Cannot read properties of null (reading '' @ [CHR 0x27] @ k @ [CHR 0x27] @ '')''))"
| "get_prop (JObject fs) k = Inr (case map_of fs k of None \<Rightarrow> JUndefined | Some v \<Rightarrow> v)"
| "get_prop (JArray xs) k =
     Inr (if k = ''length'' then JNumber (Fin (of_nat (length xs))) else JUndefined)"
| "get_prop (JString s) k =
     Inr (if k = ''length'' then JNumber (Fin (of_nat (length s))) else JUndefined)"
| "get_prop (JBool b) k = Inr JUndefined"
| "get_prop (JNumber n) k = Inr JUndefined"

definition digit_char :: "nat \<Rightarrow> char" where
  "digit_char d = ''0123456789'' ! d"

fun show_nat :: "nat \<Rightarrow> string" where
  "show_nat n =
     (if n < 10 then [digit_char n]
      else show_nat (n div 10) @ [digit_char (n mod 10)])"

declare show_nat.simps [simp del]

definition show_int :: "int \<Rightarrow> string" where
  "show_int i = (if i < 0 then ''-'' @ show_nat (nat (- i)) else show_nat (nat i))"

text \<open>
  \<^verbatim>\<open>Number::toString\<close>: an integer below \<open>10\<^sup>2\<^sup>1\<close> in magnitude prints as its decimal digits;
  every other finite number is left to the platform.
\<close>

definition number_to_string :: "platform \<Rightarrow> number \<Rightarrow> string" where
  "number_to_string pf n =
     (case n of
        PosInfinity \<Rightarrow> ''Infinity''
      | NegInfinity \<Rightarrow> ''-Infinity''
      | Fin q \<Rightarrow>
          (if of_int \<lfloor>q\<rfloor> = q \<and> \<bar>q\<bar> < 10 ^ 21 then show_int \<lfloor>q\<rfloor>
           else numberToString pf q))"

text \<open>
  \<^verbatim>\<open>ToString\<close>, as a template literal applies it. An array joins its elements with commas,
  \<^verbatim>\<open>null\<close> and \<^verbatim>\<open>undefined\<close> elements as the empty string. An object prints as
  \<^verbatim>\<open>[object Object]\<close>, unless it has a key \<^verbatim>\<open>toString\<close> of its own: a JSON value is not
  callable, and the conversion throws.
\<close>

fun to_string :: "platform \<Rightarrow> js_value \<Rightarrow> js_error + string"
  and join_elems :: "platform \<Rightarrow> js_value list \<Rightarrow> js_error + string"
  and elem_string :: "platform \<Rightarrow> js_value \<Rightarrow> js_error + string" where
  "to_string pf JUndefined = Inr ''undefined''"
| "to_string pf JNull = Inr ''null''"
| "to_string pf (JBool b) = Inr (if b then ''true'' else ''false'')"
| "to_string pf (JNumber n) = Inr (number_to_string pf n)"
| "to_string pf (JString s) = Inr s"
| "to_string pf (JArray xs) = join_elems pf xs"
| "to_string pf (JObject fs) =
     (if ''toString'' \<in> set (map fst fs)
      then Inl (TypeError ''Cannot convert object to primitive value'')
      else Inr ''[object Object]'')"
| "join_elems pf [] = Inr []"
| "join_elems pf [x] = elem_string pf x"
| "join_elems pf (x # y # ys) =
     bind_r (elem_string pf x) (\<lambda>s. bind_r (join_elems pf (y # ys)) (\<lambda>r. Inr (s @ '','' @ r)))"
| "elem_string pf JUndefined = Inr []"
| "elem_string pf JNull = Inr []"
| "elem_string pf (JBool b) = to_string pf (JBool b)"
| "elem_string pf (JNumber n) = to_string pf (JNumber n)"
| "elem_string pf (JString s) = to_string pf (JString s)"
| "elem_string pf (JArray xs) = to_string pf (JArray xs)"
| "elem_string pf (JObject fs) = to_string pf (JObject fs)"

text \<open>\<^verbatim>\<open>Array.prototype.join\<close> on an array of strings.\<close>

fun join_str :: "string \<Rightarrow> string list \<Rightarrow> string" where
  "join_str sep [] = []"
| "join_str sep [x] = x"
| "join_str sep (x # y # ys) = x @ sep @ join_str sep (y # ys)"

text \<open>The recurring \<^verbatim>\<open>${obj.key || "fallback"}\<close> of the formatters.\<close>

definition field_or :: "platform \<Rightarrow> js_value \<Rightarrow> string \<Rightarrow> string \<Rightarrow> js_error + string" where
  "field_or pf obj k dflt =
     bind_r (get_prop obj k) (\<lambda>v. to_string pf (or_else v (JString dflt)))"

definition labelled :: "string \<Rightarrow> js_error + string \<Rightarrow> js_error + string" where
  "labelled l m = bind_r m (\<lambda>s. Inr (l @ s))"

section \<open>Formatting an alert\<close>

definition alertLines :: "platform \<Rightarrow> js_value \<Rightarrow> (js_error + string) list" where
  "alertLines pf props =
     [labelled ''Event: '' (field_or pf props ''event'' ''Unknown''),
      labelled ''Area: '' (field_or pf props ''areaDesc'' ''Unknown''),
      labelled ''Severity: '' (field_or pf props ''severity'' ''Unknown''),
      labelled ''Status: '' (field_or pf props ''status'' ''Unknown''),
      labelled ''Headline: '' (field_or pf props ''headline'' ''No headline''),
      Inr ''---'']"

definition formatAlert :: "platform \<Rightarrow> js_value \<Rightarrow> js_error + string" where
  "formatAlert pf feature =
     bind_r (get_prop feature ''properties'') (\<lambda>props.
     bind_r (collect (alertLines pf props)) (\<lambda>ls.
     Inr (join_str ''\<newline>'' ls)))"

section \<open>The network and the console\<close>

text \<open>
  A handler's only effects are the calls of \<^verbatim>\<open>fetch\<close> and, in \<^verbatim>\<open>makeNWSRequest\<close>, a line
  on the console. Both are recorded in the state a handler threads through. The services are
  not under the program's control: the network is any function giving, for the \<open>n\<close>-th call
  of an invocation and its request, either a rejection or a response; a response carries its
  status and what \<^verbatim>\<open>text()\<close> and \<^verbatim>\<open>json()\<close> would settle to.
\<close>

record request =
  req_method :: string
  req_url :: string
  req_headers :: "(string \<times> string) list"
  req_body :: "string option"

record response =
  resp_status :: nat
  resp_text :: "js_error + string"
  resp_json :: "js_error + js_value"

definition resp_ok :: "response \<Rightarrow> bool" where
  "resp_ok r = (200 \<le> resp_status r \<and> resp_status r \<le> 299)"

type_synonym network = "nat \<Rightarrow> request \<Rightarrow> js_error + response"

record io =
  calls :: "request list"
  console :: "js_error list"

definition fetch :: "network \<Rightarrow> request \<Rightarrow> io \<Rightarrow> (js_error + response) \<times> io" where
  "fetch net rq s = (net (length (calls s)) rq, s\<lparr>calls := calls s @ [rq]\<rparr>)"

definition console_error :: "js_error \<Rightarrow> io \<Rightarrow> io" where
  "console_error e s = s\<lparr>console := console s @ [e]\<rparr>"

record content_block =
  block_type :: string
  block_text :: string

record tool_result =
  content :: "content_block list"

abbreviation text_block :: "string \<Rightarrow> content_block" where
  "text_block t \<equiv> \<lparr>block_type = ''text'', block_text = t\<rparr>"

section \<open>The weather provider\<close>

definition NWS_API_BASE :: string where
  "NWS_API_BASE = ''https://api.weather.gov''"

definition USER_AGENT :: string where
  "USER_AGENT = ''weather-app/1.0''"

text \<open>
  \<^verbatim>\<open>makeNWSRequest\<close>: everything inside its \<^verbatim>\<open>try\<close> that throws ends in the \<^verbatim>\<open>catch\<close>, which
  logs and returns \<^verbatim>\<open>null\<close>. The URL is a string by its type; the forecast handler passes
  whatever the points response held, and \<^verbatim>\<open>fetch\<close> converts it first.
\<close>

definition makeNWSRequest :: "platform \<Rightarrow> network \<Rightarrow> js_value \<Rightarrow> io \<Rightarrow> js_value \<times> io" where
  "makeNWSRequest pf net u s =
     (case to_string pf u of
        Inl e \<Rightarrow> (JNull, console_error e s)
      | Inr target \<Rightarrow>
          (case fetch net \<lparr>req_method = ''GET'', req_url = target,
                  req_headers = [(''User-Agent'', USER_AGENT), (''Accept'', ''application/geo+json'')],
                  req_body = None\<rparr> s of
             (Inl e, s1) \<Rightarrow> (JNull, console_error e s1)
           | (Inr r, s1) \<Rightarrow>
               if \<not> resp_ok r
               then (JNull, console_error
                       (Error (''HTTP error! status: '' @ show_nat (resp_status r))) s1)
               else (case resp_json r of
                       Inl e \<Rightarrow> (JNull, console_error e s1)
                     | Inr v \<Rightarrow> (v, s1))))"

text \<open>
  \<^verbatim>\<open>xs.map(f)\<close>: only an array has the method; on anything else the call throws. The
  callback gets the element and its index.
\<close>

definition array_map ::
    "string \<Rightarrow> (js_value \<Rightarrow> nat \<Rightarrow> js_error + 'a) \<Rightarrow> js_value \<Rightarrow> js_error + 'a list" where
  "array_map what f v =
     (case v of
        JArray xs \<Rightarrow> collect (map (\<lambda>(i, x). f x i) (enumerate 0 xs))
      | _ \<Rightarrow> Inl (TypeError (what @ ''.map is not a function'')))"

definition get_alerts :: "platform \<Rightarrow> network \<Rightarrow> string \<Rightarrow> io \<Rightarrow> (js_error + tool_result) \<times> io" where
  "get_alerts pf net state s =
     (let stateCode = toUpperCase pf state;
          alertsUrl = NWS_API_BASE @ ''/alerts?area='' @ stateCode;
          (alertsData, s1) = makeNWSRequest pf net (JString alertsUrl) s
      in if \<not> truthy alertsData
         then (Inr \<lparr>content = [text_block ''Failed to retrieve alerts data'']\<rparr>, s1)
         else
           (bind_r (get_prop alertsData ''features'') (\<lambda>fs.
            let features = or_else fs (JArray []) in
            bind_r (get_prop features ''length'') (\<lambda>len.
            if len = JNumber (Fin 0)
            then Inr \<lparr>content = [text_block (''No active alerts for '' @ stateCode)]\<rparr>
            else
              bind_r (array_map ''features'' (\<lambda>x i. formatAlert pf x) features) (\<lambda>formattedAlerts.
              let alertsText = ''Active alerts for '' @ stateCode @ '':\<newline>\<newline>'' @
                                 join_str ''\<newline>'' formattedAlerts
              in Inr \<lparr>content = [text_block alertsText]\<rparr>))), s1))"

section \<open>The forecast\<close>

text \<open>
  \<^verbatim>\<open>Number.prototype.toFixed\<close> on a finite number: the sign, then the integer \<open>n\<close> nearest to
  \<open>x\<close> times \<open>10\<^sup>f\<close> (the larger of two), padded with zeros to \<open>f + 1\<close> digits, a point
  before the last \<open>f\<close>. From \<open>10\<^sup>2\<^sup>1\<close> on the result is that of \<^verbatim>\<open>Number::toString\<close>.
\<close>

definition fixed_digits :: "nat \<Rightarrow> rat \<Rightarrow> string" where
  "fixed_digits f x =
     (let n = nat \<lfloor>x * 10 ^ f + 1 / 2\<rfloor>;
          m = show_nat n;
          m = (if length m \<le> f then replicate (f + 1 - length m) CHR ''0'' @ m else m);
          k = length m
      in if f \<noteq> 0 then take (k - f) m @ ''.'' @ drop (k - f) m else m)"

definition toFixed :: "platform \<Rightarrow> nat \<Rightarrow> rat \<Rightarrow> string" where
  "toFixed pf f x =
     (if \<bar>x\<bar> \<ge> 10 ^ 21 then number_to_string pf (Fin x)
      else (if x < 0 then ''-'' else []) @ fixed_digits f \<bar>x\<bar>)"

definition pointsUrl :: "platform \<Rightarrow> rat \<Rightarrow> rat \<Rightarrow> string" where
  "pointsUrl pf latitude longitude =
     NWS_API_BASE @ ''/points/'' @ toFixed pf 4 latitude @ '','' @ toFixed pf 4 longitude"

text \<open>The degree sign of the temperature line, with the bytes of the source file.\<close>

definition degree :: string where
  "degree = [CHR 0xC3, CHR 0x82, CHR 0xC2, CHR 0xB0]"

definition periodLines :: "platform \<Rightarrow> js_value \<Rightarrow> (js_error + string) list" where
  "periodLines pf period =
     [bind_r (field_or pf period ''name'' ''Unknown'') (\<lambda>n. Inr (n @ '':'')),
      bind_r (field_or pf period ''temperature'' ''Unknown'') (\<lambda>t.
        bind_r (field_or pf period ''temperatureUnit'' ''F'') (\<lambda>u.
        Inr (''Temperature: '' @ t @ degree @ u))),
      bind_r (field_or pf period ''windSpeed'' ''Unknown'') (\<lambda>w.
        bind_r (field_or pf period ''windDirection'' []) (\<lambda>d.
        Inr (''Wind: '' @ w @ '' '' @ d))),
      field_or pf period ''shortForecast'' ''No forecast available'',
      Inr ''---'']"

definition formatPeriod :: "platform \<Rightarrow> js_value \<Rightarrow> js_error + string" where
  "formatPeriod pf period =
     bind_r (collect (periodLines pf period)) (\<lambda>ls. Inr (join_str ''\<newline>'' ls))"

text \<open>The optional chain \<^verbatim>\<open>v?.k\<close>.\<close>

definition get_prop_opt :: "js_value \<Rightarrow> string \<Rightarrow> js_error + js_value" where
  "get_prop_opt v k = (if v = JUndefined \<or> v = JNull then Inr JUndefined else get_prop v k)"

text \<open>The read \<^verbatim>\<open>pointsData.properties?.forecast\<close>.\<close>

definition forecastUrlOf :: "js_value \<Rightarrow> js_error + js_value" where
  "forecastUrlOf pointsData =
     bind_r (get_prop pointsData ''properties'') (\<lambda>p. get_prop_opt p ''forecast'')"

definition get_forecast ::
    "platform \<Rightarrow> network \<Rightarrow> rat \<Rightarrow> rat \<Rightarrow> io \<Rightarrow> (js_error + tool_result) \<times> io" where
  "get_forecast pf net latitude longitude s =
     (let (pointsData, s1) = makeNWSRequest pf net (JString (pointsUrl pf latitude longitude)) s
      in if \<not> truthy pointsData
         then (Inr \<lparr>content = [text_block
                 (''Failed to retrieve grid point data for coordinates: '' @
                  number_to_string pf (Fin latitude) @ '', '' @ number_to_string pf (Fin longitude) @
                  ''. This location may not be supported by the NWS API (only US locations are supported).'')]\<rparr>,
               s1)
         else
           (case forecastUrlOf pointsData of
              Inl e \<Rightarrow> (Inl e, s1)
            | Inr forecastUrl \<Rightarrow>
                if \<not> truthy forecastUrl
                then (Inr \<lparr>content = [text_block ''Failed to get forecast URL from grid point data'']\<rparr>, s1)
                else
                  (let (forecastData, s2) = makeNWSRequest pf net forecastUrl s1
                   in if \<not> truthy forecastData
                      then (Inr \<lparr>content = [text_block ''Failed to retrieve forecast data'']\<rparr>, s2)
                      else
                        (bind_r (get_prop forecastData ''properties'') (\<lambda>p.
                         bind_r (get_prop_opt p ''periods'') (\<lambda>ps.
                         let periods = or_else ps (JArray []) in
                         bind_r (get_prop periods ''length'') (\<lambda>len.
                         if len = JNumber (Fin 0)
                         then Inr \<lparr>content = [text_block ''No forecast periods available'']\<rparr>
                         else
                           bind_r (array_map ''periods'' (\<lambda>x i. formatPeriod pf x) periods)
                             (\<lambda>formattedForecast.
                           let forecastText =
                                 ''Forecast for '' @ number_to_string pf (Fin latitude) @ '', '' @
                                 number_to_string pf (Fin longitude) @ '':\<newline>\<newline>'' @
                                 join_str ''\<newline>'' formattedForecast
                           in Inr \<lparr>content = [text_block forecastText]\<rparr>)))), s2))))"

section \<open>The notification service\<close>

text \<open>\<^verbatim>\<open>Error.prototype.toString\<close>, which \<^verbatim>\<open>${error}\<close> applies to a caught error.\<close>

definition error_to_string :: "js_error \<Rightarrow> string" where
  "error_to_string e =
     (if err_name e = [] then err_message e
      else if err_message e = [] then err_name e
      else err_name e @ '': '' @ err_message e)"

text \<open>The marks that open the texts of these handlers, with the bytes of the source file.\<close>

definition mark_registered :: string where
  "mark_registered = [CHR 0xC3, CHR 0xA2, CHR 0xC5, CHR 0x93, CHR 0xE2, CHR 0x80, CHR 0xA6]"

definition mark_failed :: string where
  "mark_failed = [CHR 0xC3, CHR 0xA2, CHR 0xC5, CHR 0x92]"

definition mark_info :: string where
  "mark_info = [CHR 0xC3, CHR 0xA2, CHR 0xE2, CHR 0x80, CHR 0x9E, CHR 0xC2, CHR 0xB9,
                CHR 0xC3, CHR 0xAF, CHR 0xC2, CHR 0xB8]"

definition mark_inbox :: string where
  "mark_inbox = [CHR 0xC3, CHR 0xB0, CHR 0xC5, CHR 0xB8, CHR 0xE2, CHR 0x80, CHR 0x9C,
                 CHR 0xC2, CHR 0xAC]"

definition register_notification ::
    "platform \<Rightarrow> network \<Rightarrow> string \<Rightarrow> string \<Rightarrow> string \<Rightarrow> io \<Rightarrow> (js_error + tool_result) \<times> io" where
  "register_notification pf net session_id token targetPrice s =
     (let (outcome, s1) =
            fetch net \<lparr>req_method = ''POST'',
                       req_url = ''http://localhost:3001/api/notification'',
                       req_headers = [(''Content-Type'', ''application/json'')],
                       req_body = Some (jsonStringify pf
                         (JObject [(''session_id'', JString session_id), (''token'', JString token),
                                   (''targetPrice'', JString targetPrice)]) 0)\<rparr> s
      in case bind_r outcome resp_text of
           Inr result \<Rightarrow>
             (Inr \<lparr>content = [text_block
                (mark_registered @ '' Price alert registered successfully:\<newline>\<newline>'' @ result)]\<rparr>, s1)
         | Inl error \<Rightarrow>
             (Inr \<lparr>content = [text_block
                (mark_failed @ '' Failed to register alert: '' @ error_to_string error)]\<rparr>, s1))"

definition notificationLine :: "platform \<Rightarrow> js_value \<Rightarrow> nat \<Rightarrow> js_error + string" where
  "notificationLine pf n i =
     bind_r (bind_r (get_prop n ''token'') (to_string pf)) (\<lambda>tok.
     bind_r (bind_r (get_prop n ''targetPrice'') (to_string pf)) (\<lambda>target.
     bind_r (bind_r (get_prop n ''condition'') (to_string pf)) (\<lambda>cond.
     Inr (''#'' @ show_nat (i + 1) @ '' - Token: '' @ tok @ '', Target: '' @ target @
          '', Condition: '' @ cond))))"

definition get_user_notifications ::
    "platform \<Rightarrow> network \<Rightarrow> string \<Rightarrow> io \<Rightarrow> (js_error + tool_result) \<times> io" where
  "get_user_notifications pf net session_id s =
     (let (outcome, s1) =
            fetch net \<lparr>req_method = ''GET'',
                       req_url = ''http://localhost:3001/api/userNotification?session_id='' @ session_id,
                       req_headers = [], req_body = None\<rparr> s
      in case
           bind_r outcome (\<lambda>response.
           bind_r (resp_json response) (\<lambda>data.
           bind_r (get_prop data ''userNotifications'') (\<lambda>notifications.
           if \<not> truthy notifications then Inr None
           else
             bind_r (get_prop notifications ''length'') (\<lambda>len.
             if len = JNumber (Fin 0) then Inr None
             else
               bind_r (array_map ''notifications'' (notificationLine pf) notifications) (\<lambda>ls.
               Inr (Some (join_str ''\<newline>'' ls)))))))
         of
           Inr None \<Rightarrow>
             (Inr \<lparr>content = [text_block
                (mark_info @ '' No notifications found for session: '' @ session_id)]\<rparr>, s1)
         | Inr (Some formatted) \<Rightarrow>
             (Inr \<lparr>content = [text_block
                (mark_inbox @ '' Notifications for session **'' @ session_id @ ''**:\<newline>\<newline>'' @
                 formatted)]\<rparr>, s1)
         | Inl error \<Rightarrow>
             (Inr \<lparr>content = [text_block
                (mark_failed @ '' Failed to fetch notifications: '' @
                 (if err_message error \<noteq> [] then err_message error else ''Unknown error''))]\<rparr>, s1))"

text \<open>\<^verbatim>\<open>JSON.stringify(v, null, 2)\<close> inside a template: \<^verbatim>\<open>undefined\<close> stays \<^verbatim>\<open>undefined\<close>.\<close>

definition stringify_pretty :: "platform \<Rightarrow> js_value \<Rightarrow> string" where
  "stringify_pretty pf v = (if v = JUndefined then ''undefined'' else jsonStringify pf v 2)"

definition get_latest_token_price :: "platform \<Rightarrow> network \<Rightarrow> io \<Rightarrow> (js_error + tool_result) \<times> io" where
  "get_latest_token_price pf net s =
     (let (outcome, s1) =
            fetch net \<lparr>req_method = ''GET'',
                       req_url = ''http://localhost:3001/api/latestTokenPrice'',
                       req_headers = [(''Content-Type'', ''application/json'')],
                       req_body = None\<rparr> s
      in case
           bind_r outcome (\<lambda>response.
           if \<not> resp_ok response then Inl (Error ''Failed to fetch latest token prices'')
           else
             bind_r (resp_json response) (\<lambda>data.
             bind_r (get_prop data ''latestTokenPrices'') (\<lambda>prices.
             Inr (stringify_pretty pf prices))))
         of
           Inr pretty \<Rightarrow>
             (Inr \<lparr>content = [text_block (''Latest Token Prices:\<newline>\<newline>'' @ pretty)]\<rparr>, s1)
         | Inl error \<Rightarrow>
             (Inr \<lparr>content = [text_block
                (''Error retrieving latest token prices: '' @ error_to_string error)]\<rparr>, s1))"

section \<open>The tool registry\<close>

text \<open>
  The five registered tools with their arguments, as they reach the handlers once the
  protocol library has checked them against the declared shapes. An invocation starts with
  no call made and nothing logged.
\<close>

datatype tool_call =
    GetAlerts string
  | GetForecast rat rat
  | RegisterNotification string string string
  | GetUserNotifications string
  | GetLatestTokenPrice

definition io0 :: io where
  "io0 = \<lparr>calls = [], console = []\<rparr>"

fun invoke :: "platform \<Rightarrow> network \<Rightarrow> tool_call \<Rightarrow> (js_error + tool_result) \<times> io" where
  "invoke pf net (GetAlerts state) = get_alerts pf net state io0"
| "invoke pf net (GetForecast latitude longitude) = get_forecast pf net latitude longitude io0"
| "invoke pf net (RegisterNotification session_id token targetPrice) =
     register_notification pf net session_id token targetPrice io0"
| "invoke pf net (GetUserNotifications session_id) = get_user_notifications pf net session_id io0"
| "invoke pf net GetLatestTokenPrice = get_latest_token_price pf net io0"

section \<open>A platform to run the handlers on\<close>

text \<open>
  An instance of the platform for evaluating the handlers on concrete inputs. It is Node's
  on ASCII strings, and on numbers with a short decimal expansion. Its \<^verbatim>\<open>JSON.stringify\<close>
  is the compact form without indentation, escaping quotes and backslashes only.
\<close>

definition ascii_upper :: "char \<Rightarrow> char" where
  "ascii_upper c =
     (if (97::nat) \<le> of_char c \<and> of_char c \<le> (122::nat)
      then char_of (of_char c - (32::nat)) else c)"

fun fraction_digits :: "nat \<Rightarrow> rat \<Rightarrow> string" where
  "fraction_digits 0 r = []"
| "fraction_digits (Suc n) r =
     (if r = 0 then []
      else digit_char (nat \<lfloor>r * 10\<rfloor>) # fraction_digits n (r * 10 - of_int \<lfloor>r * 10\<rfloor>))"

definition plain_decimal :: "rat \<Rightarrow> string" where
  "plain_decimal q =
     (if q < 0 then ''-'' else []) @ show_nat (nat \<lfloor>\<bar>q\<bar>\<rfloor>) @ ''.'' @
     fraction_digits 17 (\<bar>q\<bar> - of_int \<lfloor>\<bar>q\<bar>\<rfloor>)"

definition quote_string :: "string \<Rightarrow> string" where
  "quote_string s =
     [CHR 0x22] @ concat (map (\<lambda>c. if c = CHR 0x22 \<or> c = CHR 0x5C then [CHR 0x5C, c] else [c]) s) @
     [CHR 0x22]"

fun compact_json :: "js_value \<Rightarrow> string"
  and compact_elems :: "js_value list \<Rightarrow> string"
  and compact_fields :: "(string \<times> js_value) list \<Rightarrow> string" where
  "compact_json JUndefined = ''null''"
| "compact_json JNull = ''null''"
| "compact_json (JBool b) = (if b then ''true'' else ''false'')"
| "compact_json (JNumber n) =
     (case n of Fin q \<Rightarrow> (if of_int \<lfloor>q\<rfloor> = q then show_int \<lfloor>q\<rfloor> else plain_decimal q)
      | _ \<Rightarrow> ''null'')"
| "compact_json (JString s) = quote_string s"
| "compact_json (JArray xs) = ''['' @ compact_elems xs @ '']''"
| "compact_json (JObject fs) = ''{'' @ compact_fields fs @ ''}''"
| "compact_elems [] = []"
| "compact_elems [x] = compact_json x"
| "compact_elems (x # y # ys) = compact_json x @ '','' @ compact_elems (y # ys)"
| "compact_fields [] = []"
| "compact_fields [(k, v)] = quote_string k @ '':'' @ compact_json v"
| "compact_fields ((k, v) # f # fs) =
     quote_string k @ '':'' @ compact_json v @ '','' @ compact_fields (f # fs)"

definition node_ascii :: platform where
  "node_ascii =
     \<lparr>numberToString = plain_decimal,
      jsonStringify = (\<lambda>v space. compact_json v),
      toUpperCase = map ascii_upper\<rparr>"

section \<open>Services to run the handlers against\<close>

definition json_response :: "nat \<Rightarrow> js_value \<Rightarrow> response" where
  "json_response st v = \<lparr>resp_status = st, resp_text = Inr (compact_json v), resp_json = Inr v\<rparr>"

definition text_response :: "nat \<Rightarrow> string \<Rightarrow> response" where
  "text_response st b =
     \<lparr>resp_status = st, resp_text = Inr b,
      resp_json = Inl (JsError ''SyntaxError'' ''Unexpected token in JSON at position 0'')\<rparr>"

text \<open>A service that answers every request with the same response.\<close>

definition replies :: "response \<Rightarrow> network" where
  "replies r = (\<lambda>n rq. Inr r)"

text \<open>An alerts response whose one feature has no \<^verbatim>\<open>properties\<close>: \<^verbatim>\<open>{"features":[{}]}\<close>.\<close>

definition alerts_bare_feature :: js_value where
  "alerts_bare_feature = JObject [(''features'', JArray [JObject []])]"

text \<open>
  The weather provider for one coordinate: the grid lookup names a forecast URL, and the
  forecast has the period \<^verbatim>\<open>{name:"Tonight", temperature:40, temperatureUnit:"F",
  windSpeed:"5 mph", shortForecast:"Clear"}\<close>.
\<close>

definition tonight :: js_value where
  "tonight =
     JObject [(''name'', JString ''Tonight''), (''temperature'', JNumber (Fin 40)),
              (''temperatureUnit'', JString ''F''), (''windSpeed'', JString ''5 mph''),
              (''shortForecast'', JString ''Clear'')]"

definition weather_service :: network where
  "weather_service n rq =
     (if req_url rq = ''https://api.weather.gov/points/40.0000,-75.0000''
      then Inr (json_response 200 (JObject [(''properties'',
             JObject [(''forecast'', JString ''https://api.weather.gov/gridpoints/PHI/50,76/forecast'')])]))
      else if req_url rq = ''https://api.weather.gov/gridpoints/PHI/50,76/forecast''
      then Inr (json_response 200 (JObject [(''properties'',
             JObject [(''periods'', JArray [tonight])])]))
      else Inr (text_response 404 ''Not Found''))"

section \<open>Notions the properties are stated with\<close>

text \<open>An object without the key \<open>k\<close>: the field is absent.\<close>

definition drop_field :: "string \<Rightarrow> (string \<times> js_value) list \<Rightarrow> (string \<times> js_value) list" where
  "drop_field k fs = filter (\<lambda>kv. fst kv \<noteq> k) fs"

text \<open>
  A decimal with exactly \<open>f\<close> places: an optional minus sign, at least one digit, a point and
  \<open>f\<close> digits. Its value is read off the digits.
\<close>

definition is_digit :: "char \<Rightarrow> bool" where
  "is_digit c = (c \<in> set ''0123456789'')"

definition unsigned_part :: "string \<Rightarrow> string" where
  "unsigned_part s = (case s of [] \<Rightarrow> [] | c # r \<Rightarrow> if c = CHR ''-'' then r else s)"

definition fixed_decimal :: "nat \<Rightarrow> string \<Rightarrow> bool" where
  "fixed_decimal f s =
     (let whole = takeWhile is_digit (unsigned_part s);
          rest = dropWhile is_digit (unsigned_part s)
      in whole \<noteq> [] \<and>
         (case rest of [] \<Rightarrow> False
          | c # places \<Rightarrow> c = CHR ''.'' \<and> length places = f \<and> list_all is_digit places))"

definition digit_value :: "char \<Rightarrow> nat" where
  "digit_value c = of_char c - 48"

definition digits_value :: "string \<Rightarrow> nat" where
  "digits_value ds = foldl (\<lambda>a c. 10 * a + digit_value c) 0 ds"

definition decimal_value :: "string \<Rightarrow> rat" where
  "decimal_value s =
     (let whole = takeWhile is_digit (unsigned_part s);
          places = drop 1 (dropWhile is_digit (unsigned_part s));
          magnitude = of_nat (digits_value (whole @ places)) / 10 ^ length places
      in if unsigned_part s = s then magnitude else - magnitude)"

section \<open>Properties\<close>

subsection \<open>Fields and their fallbacks\<close>

lemma field_or_absent:
  "map_of fs k = None \<Longrightarrow> field_or pf (JObject fs) k d = Inr d"
  by (simp add: field_or_def bind_r_def or_else_def)

lemma field_or_string:
  "map_of fs k = Some (JString v) \<Longrightarrow> v \<noteq> [] \<Longrightarrow> field_or pf (JObject fs) k d = Inr v"
  by (simp add: field_or_def bind_r_def or_else_def)

lemma field_or_falsy:
  "map_of fs k = Some v \<Longrightarrow> \<not> truthy v \<Longrightarrow> field_or pf (JObject fs) k d = Inr d"
  by (simp add: field_or_def bind_r_def or_else_def)

lemma map_of_drop_field:
  "map_of (drop_field k fs) k' = (if k' = k then None else map_of fs k')"
  by (induction fs) (auto simp add: drop_field_def)

lemma field_or_drop_falsy:
  assumes "map_of fs k = Some v" and "\<not> truthy v"
  shows "field_or pf (JObject (drop_field k fs)) k' d = field_or pf (JObject fs) k' d"
proof (cases "k' = k")
  case True
  then show ?thesis
    using assms by (simp add: field_or_falsy field_or_absent map_of_drop_field)
next
  case False
  then show ?thesis
    by (simp add: field_or_def map_of_drop_field)
qed

lemma alertLines_falsy:
  assumes "map_of props k = Some v" and "\<not> truthy v"
  shows "(k = ''event'' \<longrightarrow> alertLines pf (JObject props) ! 0 = Inr ''Event: Unknown'') \<and>
         (k = ''areaDesc'' \<longrightarrow> alertLines pf (JObject props) ! 1 = Inr ''Area: Unknown'') \<and>
         (k = ''severity'' \<longrightarrow> alertLines pf (JObject props) ! 2 = Inr ''Severity: Unknown'') \<and>
         (k = ''status'' \<longrightarrow> alertLines pf (JObject props) ! 3 = Inr ''Status: Unknown'') \<and>
         (k = ''headline'' \<longrightarrow> alertLines pf (JObject props) ! 4 = Inr ''Headline: No headline'')"
  using assms
  by (auto simp add: alertLines_def labelled_def bind_r_def field_or_falsy)

lemma temperature_line_falsy:
  assumes "map_of period ''temperature'' = Some v" and "\<not> truthy v"
  shows "periodLines pf (JObject period) ! 1 =
           bind_r (field_or pf (JObject period) ''temperatureUnit'' ''F'')
             (\<lambda>u. Inr (''Temperature: Unknown'' @ degree @ u))"
  using assms
  by (simp add: periodLines_def field_or_falsy bind_r_def split: sum.splits)

subsection \<open>Calls made by the handlers\<close>

lemma console_error_calls: "calls (console_error e s) = calls s"
  by (simp add: console_error_def)

lemma makeNWSRequest_calls:
  "makeNWSRequest pf net u s = (v, s') \<Longrightarrow> length (calls s') \<le> Suc (length (calls s))"
  by (auto simp add: makeNWSRequest_def fetch_def console_error_calls
      split: sum.splits prod.splits if_splits)

lemma makeNWSRequest_string_calls:
  "makeNWSRequest pf net (JString u) s = (v, s') \<Longrightarrow> \<exists>rq. req_url rq = u \<and> calls s' = calls s @ [rq]"
  by (auto simp add: makeNWSRequest_def fetch_def console_error_calls
      split: sum.splits prod.splits if_splits)

lemma makeNWSRequest_calls_prefix:
  "makeNWSRequest pf net u s = (v, s') \<Longrightarrow> \<exists>rest. calls s' = calls s @ rest"
  by (auto simp add: makeNWSRequest_def fetch_def console_error_calls
      split: sum.splits prod.splits if_splits)

text \<open>A request that is answered with status 2xx and a body that parses gives the parsed value.\<close>

lemma makeNWSRequest_data:
  assumes "net (length (calls s)) \<lparr>req_method = ''GET'', req_url = u,
                  req_headers = [(''User-Agent'', USER_AGENT), (''Accept'', ''application/geo+json'')],
                  req_body = None\<rparr> = Inr r"
    and "resp_ok r" and "resp_json r = Inr v"
  shows "makeNWSRequest pf net (JString u) s = (v, s\<lparr>calls := calls s @ [\<lparr>req_method = ''GET'', req_url = u,
                  req_headers = [(''User-Agent'', USER_AGENT), (''Accept'', ''application/geo+json'')],
                  req_body = None\<rparr>]\<rparr>)"
  using assms by (simp add: makeNWSRequest_def fetch_def)

lemma get_alerts_calls:
  "length (calls (snd (get_alerts pf net st s))) \<le> Suc (length (calls s))"
  by (auto simp add: get_alerts_def Let_def split: prod.splits dest: makeNWSRequest_calls)

lemma get_forecast_calls:
  "length (calls (snd (get_forecast pf net la lo s))) \<le> Suc (Suc (length (calls s)))"
  by (auto simp add: get_forecast_def Let_def split: prod.splits sum.splits
      dest!: makeNWSRequest_calls)

lemma register_notification_calls:
  "length (calls (snd (register_notification pf net a b c s))) = Suc (length (calls s))"
  by (simp add: register_notification_def fetch_def Let_def split: sum.splits)

lemma get_user_notifications_calls:
  "length (calls (snd (get_user_notifications pf net a s))) = Suc (length (calls s))"
  by (simp add: get_user_notifications_def fetch_def Let_def split: sum.splits option.splits)

lemma get_latest_token_price_calls:
  "length (calls (snd (get_latest_token_price pf net s))) = Suc (length (calls s))"
  by (simp add: get_latest_token_price_def fetch_def Let_def split: sum.splits)

lemma get_forecast_first_call:
  "req_url (hd (calls (snd (get_forecast pf net la lo io0)))) = pointsUrl pf la lo"
proof -
  obtain pd s1 where a: "makeNWSRequest pf net (JString (pointsUrl pf la lo)) io0 = (pd, s1)"
    by (cases "makeNWSRequest pf net (JString (pointsUrl pf la lo)) io0")
  obtain rq where rq: "req_url rq = pointsUrl pf la lo" "calls s1 = [rq]"
    using makeNWSRequest_string_calls [OF a] by (auto simp add: io0_def)
  have later: "hd (calls s2) = rq" if "makeNWSRequest pf net u s1 = (v, s2)" for u v s2
    using makeNWSRequest_calls_prefix [OF that] rq(2) by auto
  show ?thesis
    using rq by (auto simp add: get_forecast_def a Let_def split: prod.splits sum.splits dest: later)
qed

subsection \<open>What a handler returns\<close>

text \<open>
  The two weather handlers return one text block whenever they return. The three handlers
  of the notification service catch everything they throw: they always return, and what
  they return is one text block.
\<close>

lemma get_alerts_one_block:
  "get_alerts pf net st s = (Inr r, s') \<Longrightarrow> \<exists>t. r = \<lparr>content = [text_block t]\<rparr>"
  by (auto simp add: get_alerts_def Let_def bind_r_def split: prod.splits sum.splits if_splits)

lemma get_forecast_one_block:
  "get_forecast pf net la lo s = (Inr r, s') \<Longrightarrow> \<exists>t. r = \<lparr>content = [text_block t]\<rparr>"
  by (auto simp add: get_forecast_def Let_def bind_r_def split: prod.splits sum.splits if_splits)

lemma register_notification_one_block:
  "\<exists>t. fst (register_notification pf net a b c s) = Inr \<lparr>content = [text_block t]\<rparr>"
  by (auto simp add: register_notification_def Let_def split: prod.splits sum.splits)

lemma get_user_notifications_one_block:
  "\<exists>t. fst (get_user_notifications pf net a s) = Inr \<lparr>content = [text_block t]\<rparr>"
  by (auto simp add: get_user_notifications_def Let_def split: prod.splits sum.splits option.splits)

lemma get_latest_token_price_one_block:
  "\<exists>t. fst (get_latest_token_price pf net s) = Inr \<lparr>content = [text_block t]\<rparr>"
  by (auto simp add: get_latest_token_price_def Let_def split: prod.splits sum.splits)

subsection \<open>Digits and fixed decimals\<close>

lemma is_digit_digit_char: "d < 10 \<Longrightarrow> is_digit (digit_char d)"
proof -
  assume "d < 10"
  then have "d \<in> {0, 1, 2, 3, 4, 5, 6, 7, 8, 9}" by auto
  then show ?thesis by (auto simp add: is_digit_def digit_char_def)
qed

lemma digit_value_digit_char: "d < 10 \<Longrightarrow> digit_value (digit_char d) = d"
proof -
  assume "d < 10"
  then have "d \<in> {0, 1, 2, 3, 4, 5, 6, 7, 8, 9}" by auto
  then show ?thesis by (auto simp add: digit_value_def digit_char_def)
qed

lemma show_nat_digits: "list_all is_digit (show_nat n)"
  by (induction n rule: show_nat.induct) (subst show_nat.simps, simp add: is_digit_digit_char)

lemma digits_value_snoc: "digits_value (ds @ [c]) = 10 * digits_value ds + digit_value c"
  by (simp add: digits_value_def)

lemma digits_value_show_nat: "digits_value (show_nat n) = n"
proof (induction n rule: show_nat.induct)
  case (1 n)
  show ?case
  proof (cases "n < 10")
    case True
    then show ?thesis
      by (subst show_nat.simps) (simp add: digits_value_def digit_value_digit_char)
  next
    case False
    then show ?thesis
      using 1 by (subst show_nat.simps) (simp add: digits_value_snoc digit_value_digit_char)
  qed
qed

lemma digit_value_zero: "digit_value CHR ''0'' = 0"
  by (simp add: digit_value_def)

lemma digits_value_zeros: "digits_value (replicate z CHR ''0'' @ ds) = digits_value ds"
proof -
  have "foldl (\<lambda>a c. 10 * a + digit_value c) 0 (replicate z CHR ''0'') = 0"
    by (induction z) (simp_all add: digit_value_zero)
  then show ?thesis by (simp add: digits_value_def)
qed

lemma takeWhile_digits:
  "list_all is_digit a \<Longrightarrow> takeWhile is_digit (a @ CHR ''.'' # b) = a"
  by (induction a) (simp_all add: is_digit_def)

lemma dropWhile_digits:
  "list_all is_digit a \<Longrightarrow> dropWhile is_digit (a @ CHR ''.'' # b) = CHR ''.'' # b"
  by (induction a) (simp_all add: is_digit_def)

text \<open>
  The shape of what \<^verbatim>\<open>toFixed\<close> prints for a magnitude: digits, a point, \<open>f\<close> digits; read
  together the digits are the rounded integer.
\<close>

lemma fixed_digits_shape:
  assumes "f \<noteq> 0"
  shows "\<exists>a b. fixed_digits f x = a @ CHR ''.'' # b \<and> a \<noteq> [] \<and> list_all is_digit a \<and>
           length b = f \<and> list_all is_digit b \<and>
           digits_value (a @ b) = nat \<lfloor>x * 10 ^ f + 1 / 2\<rfloor>"
proof -
  define n where "n = nat \<lfloor>x * 10 ^ f + 1 / 2\<rfloor>"
  define m where "m = (if length (show_nat n) \<le> f
      then replicate (f + 1 - length (show_nat n)) CHR ''0'' @ show_nat n else show_nat n)"
  have len: "f < length m"
    by (simp add: m_def)
  have zero: "is_digit CHR ''0''"
    by (simp add: is_digit_def)
  have dig: "list_all is_digit m"
    using show_nat_digits [of n] zero by (auto simp add: m_def list_all_iff)
  have val: "digits_value m = n"
    by (simp add: m_def digits_value_zeros digits_value_show_nat)
  have fd: "fixed_digits f x = take (length m - f) m @ CHR ''.'' # drop (length m - f) m"
    using assms by (simp add: fixed_digits_def Let_def n_def m_def)
  have "take (length m - f) m \<noteq> []"
    using len by (cases m) auto
  moreover have "list_all is_digit (take (length m - f) m)"
    using dig by (auto simp add: list_all_iff dest: in_set_takeD)
  moreover have "length (drop (length m - f) m) = f"
    using len by simp
  moreover have "list_all is_digit (drop (length m - f) m)"
    using dig by (auto simp add: list_all_iff dest: in_set_dropD)
  moreover have "digits_value (take (length m - f) m @ drop (length m - f) m) = n"
    using val by simp
  ultimately show ?thesis
    using fd n_def by blast
qed

lemma round_half_up_close:
  fixes y :: rat
  assumes "0 \<le> y"
  shows "\<bar>of_nat (nat \<lfloor>y + 1 / 2\<rfloor>) - y\<bar> \<le> 1 / 2"
proof -
  have nn: "0 \<le> \<lfloor>y + 1 / 2\<rfloor>"
    using assms by simp
  have "of_int \<lfloor>y + 1 / 2\<rfloor> \<le> y + 1 / 2" and "y + 1 / 2 < of_int \<lfloor>y + 1 / 2\<rfloor> + 1"
    by linarith+
  moreover have "(of_nat (nat \<lfloor>y + 1 / 2\<rfloor>) :: rat) = of_int \<lfloor>y + 1 / 2\<rfloor>"
    using nn by simp
  ultimately show ?thesis
    by linarith
qed

lemma fixed_digits_value:
  assumes "f \<noteq> 0" and "0 \<le> x"
  shows "fixed_decimal f (fixed_digits f x) \<and>
         unsigned_part (fixed_digits f x) = fixed_digits f x \<and>
         \<bar>decimal_value (fixed_digits f x) - x\<bar> \<le> 1 / (2 * 10 ^ f)"
proof -
  obtain a b where ab: "fixed_digits f x = a @ CHR ''.'' # b" "a \<noteq> []" "list_all is_digit a"
      "length b = f" "list_all is_digit b" "digits_value (a @ b) = nat \<lfloor>x * 10 ^ f + 1 / 2\<rfloor>"
    using fixed_digits_shape [OF assms(1), of x] by blast
  have nosign: "unsigned_part (a @ CHR ''.'' # b) = a @ CHR ''.'' # b"
    using ab(2,3) by (cases a) (auto simp add: unsigned_part_def is_digit_def)
  have shape: "fixed_decimal f (a @ CHR ''.'' # b)"
    using ab by (simp add: fixed_decimal_def nosign takeWhile_digits dropWhile_digits)
  have "decimal_value (a @ CHR ''.'' # b) = of_nat (nat \<lfloor>x * 10 ^ f + 1 / 2\<rfloor>) / 10 ^ f"
    using ab by (simp add: decimal_value_def nosign takeWhile_digits dropWhile_digits)
  moreover have "\<bar>of_nat (nat \<lfloor>x * 10 ^ f + 1 / 2\<rfloor>) / 10 ^ f - x\<bar> \<le> 1 / (2 * 10 ^ f)"
  proof -
    define p :: rat where "p = 10 ^ f"
    define n :: rat where "n = of_nat (nat \<lfloor>x * p + 1 / 2\<rfloor>)"
    have pp: "0 < p"
      by (simp add: p_def)
    have "0 \<le> x * p"
      using assms(2) pp by simp
    then have close: "\<bar>n - x * p\<bar> \<le> 1 / 2"
      unfolding n_def by (rule round_half_up_close)
    have "n / p - x = (n - x * p) / p"
      using pp by (simp add: field_simps)
    then have "\<bar>n / p - x\<bar> = \<bar>n - x * p\<bar> / p"
      using pp by (simp add: abs_divide)
    also have "\<dots> \<le> (1 / 2) / p"
      using close pp by (rule divide_right_mono [OF _ less_imp_le])
    finally show ?thesis
      by (simp add: n_def p_def)
  qed
  ultimately show ?thesis
    using shape nosign ab(1) by simp
qed

lemma toFixed_value:
  assumes "f \<noteq> 0" and "\<bar>x\<bar> < 10 ^ 21"
  shows "fixed_decimal f (toFixed pf f x) \<and>
         \<bar>decimal_value (toFixed pf f x) - x\<bar> \<le> 1 / (2 * 10 ^ f)"
proof (cases "x < 0")
  case False
  then have "toFixed pf f x = fixed_digits f x"
    using assms(2) by (simp add: toFixed_def)
  then show ?thesis
    using False fixed_digits_value [OF assms(1), of x] by simp
next
  case True
  define d where "d = fixed_digits f (- x)"
  have tf: "toFixed pf f x = CHR ''-'' # d"
    using True assms(2) by (simp add: toFixed_def d_def)
  have d: "fixed_decimal f d" "unsigned_part d = d" "\<bar>decimal_value d - (- x)\<bar> \<le> 1 / (2 * 10 ^ f)"
    using True fixed_digits_value [OF assms(1), of "- x"] by (simp_all add: d_def)
  have u: "unsigned_part (CHR ''-'' # d) = d"
    by (simp add: unsigned_part_def)
  have "fixed_decimal f (CHR ''-'' # d)"
    using d(1,2) by (simp add: fixed_decimal_def u)
  moreover have "decimal_value (CHR ''-'' # d) = - decimal_value d"
    using d(2) by (simp add: decimal_value_def u Let_def)
  ultimately show ?thesis
    using d(3) tf by simp
qed

subsection \<open>Evaluations on the sample inputs\<close>

lemma show_nat_400000: "show_nat 400000 = ''400000''"
  by (simp add: show_nat.simps digit_char_def)

lemma show_nat_750000: "show_nat 750000 = ''750000''"
  by (simp add: show_nat.simps digit_char_def)

lemma show_nat_388895: "show_nat 388895 = ''388895''"
  by (simp add: show_nat.simps digit_char_def)

lemma show_nat_770353: "show_nat 770353 = ''770353''"
  by (simp add: show_nat.simps digit_char_def)

lemma fixed_digits_40: "fixed_digits 4 40 = ''40.0000''"
proof -
  have "\<lfloor>(40::rat) * 10 ^ 4 + 1 / 2\<rfloor> = 400000"
    by (rule floor_unique) simp_all
  then show ?thesis
    by (simp add: fixed_digits_def show_nat_400000 Let_def)
qed

lemma fixed_digits_75: "fixed_digits 4 75 = ''75.0000''"
proof -
  have "\<lfloor>(75::rat) * 10 ^ 4 + 1 / 2\<rfloor> = 750000"
    by (rule floor_unique) simp_all
  then show ?thesis
    by (simp add: fixed_digits_def show_nat_750000 Let_def)
qed

lemma pointsUrl_sample:
  "pointsUrl pf 40 (- 75) = ''https://api.weather.gov/points/40.0000,-75.0000''"
  by (simp add: pointsUrl_def toFixed_def NWS_API_BASE_def fixed_digits_40 fixed_digits_75)

lemma toFixed_sample_latitude: "toFixed pf 4 (3888949 / 100000) = ''38.8895''"
proof -
  have "\<lfloor>(3888949 / 100000 :: rat) * 10 ^ 4 + 1 / 2\<rfloor> = 388895"
    by (rule floor_unique) simp_all
  then show ?thesis
    by (simp add: toFixed_def fixed_digits_def show_nat_388895 Let_def)
qed

lemma toFixed_sample_longitude: "toFixed pf 4 (- (7703531 / 100000)) = ''-77.0353''"
proof -
  have "\<lfloor>(7703531 / 100000 :: rat) * 10 ^ 4 + 1 / 2\<rfloor> = 770353"
    by (rule floor_unique) simp_all
  then show ?thesis
    by (simp add: toFixed_def fixed_digits_def show_nat_770353 Let_def)
qed

lemma weather_service_two_calls:
  "get_forecast pf weather_service 40 (- 75) io0 = (r, s) \<Longrightarrow> length (calls s) = 2"
  by (auto simp add: get_forecast_def pointsUrl_sample makeNWSRequest_def fetch_def io0_def
      weather_service_def json_response_def resp_ok_def console_error_def forecastUrlOf_def
      bind_r_def get_prop_opt_def Let_def split: prod.splits if_splits sum.splits)

section \<open>The claims\<close>

text \<open>
  C1. The claim: whatever the provider answers, a handler returns a response envelope and
  never throws. The alerts handler has no \<^verbatim>\<open>try\<close> of its own, and \<^verbatim>\<open>makeNWSRequest\<close> catches
  only what the request and the parse throw. On the well-formed body \<^verbatim>\<open>{"features":[{}]}\<close>
  with status 200, \<^verbatim>\<open>formatAlert\<close> reads \<^verbatim>\<open>event\<close> of the absent \<^verbatim>\<open>properties\<close>, and the
  invocation of \<^verbatim>\<open>get-alerts\<close> ends in a thrown \<^verbatim>\<open>TypeError\<close>, not in an envelope.
\<close>

theorem get_alerts_bare_feature_throws:
  "fst (invoke node_ascii (replies (json_response 200 alerts_bare_feature)) (GetAlerts ''ca'')) =
     Inl (TypeError (''Cannot read properties of undefined (reading '' @ [CHR 0x27] @ ''event'' @ [CHR 0x27] @ '')''))"
  by code_simp

text \<open>
  C2. The claim, at most one outbound call for every invocation, fails for \<^verbatim>\<open>get-forecast\<close>:
  when the grid lookup names a forecast URL the handler calls a second time.
\<close>

theorem two_calls_counterexample:
  "length (calls (snd (invoke node_ascii weather_service (GetForecast 40 (- 75))))) = 2"
  using weather_service_two_calls [of node_ascii "fst (get_forecast node_ascii weather_service 40 (- 75) io0)"
     "snd (get_forecast node_ascii weather_service 40 (- 75) io0)"]
  by simp

text \<open>
  C2, amended. Every invocation makes at most one outbound call, except that of
  \<^verbatim>\<open>get-forecast\<close>, which makes at most two.
\<close>

theorem calls_bound:
  "length (calls (snd (invoke pf net c))) \<le> (case c of GetForecast la lo \<Rightarrow> 2 | _ \<Rightarrow> 1)"
proof (cases c)
  case (GetAlerts st)
  then show ?thesis using get_alerts_calls [of pf net st io0] by (simp add: io0_def)
next
  case (GetForecast la lo)
  then show ?thesis using get_forecast_calls [of pf net la lo io0] by (simp add: io0_def)
next
  case (RegisterNotification a b c)
  then show ?thesis by (simp add: register_notification_calls io0_def)
next
  case (GetUserNotifications a)
  then show ?thesis by (simp add: get_user_notifications_calls io0_def)
next
  case GetLatestTokenPrice
  then show ?thesis by (simp add: get_latest_token_price_calls io0_def)
qed

theorem calls_bound_witness:
  "length (calls (snd (invoke node_ascii (replies (text_response 500 ''Internal Server Error''))
     (RegisterNotification ''abc'' ''ETH'' ''1928.23'')))) \<le> 1"
  using calls_bound [of node_ascii "replies (text_response 500 ''Internal Server Error'')"
      "RegisterNotification ''abc'' ''ETH'' ''1928.23''"]
  by simp

text \<open>
  C3. Whatever the status of the response to the POST, error statuses included, once its
  body has been read the \<^verbatim>\<open>register-notification\<close> handler returns the success text with the
  body appended unchanged: the status is never looked at.
\<close>

theorem register_embeds_body:
  assumes "\<forall>rq. net 0 rq = Inr \<lparr>resp_status = status, resp_text = Inr body, resp_json = parsed\<rparr>"
  shows "fst (invoke pf net (RegisterNotification session_id token targetPrice)) =
    Inr \<lparr>content = [text_block
      (mark_registered @ '' Price alert registered successfully:\<newline>\<newline>'' @ body)]\<rparr>"
  using assms
  by (simp add: register_notification_def fetch_def io0_def bind_r_def)

theorem register_embeds_body_witness:
  "fst (invoke node_ascii (replies (text_response 500 ''Internal Server Error''))
         (RegisterNotification ''abc'' ''ETH'' ''1928.23'')) =
    Inr \<lparr>content = [text_block
      (mark_registered @ '' Price alert registered successfully:\<newline>\<newline>'' @
       ''Internal Server Error'')]\<rparr>"
  using register_embeds_body [of "replies (text_response 500 ''Internal Server Error'')"
      500 "''Internal Server Error''"
      "Inl (JsError ''SyntaxError'' ''Unexpected token in JSON at position 0'')"
      node_ascii "''abc''" "''ETH''" "''1928.23''"]
  by (simp add: replies_def text_response_def)

text \<open>
  C4. When the grid lookup succeeds with a payload in which \<^verbatim>\<open>properties?.forecast\<close> is
  absent (or any other falsy value), \<^verbatim>\<open>get-forecast\<close> returns the one text block
  \<^verbatim>\<open>Failed to get forecast URL from grid point data\<close>, and the grid lookup is the only call it
  has made. (A lookup that fails, or whose payload is itself falsy, is the other failure of
  the handler, reported as \<^verbatim>\<open>Failed to retrieve grid point data\<close>.)
\<close>

theorem forecast_url_missing:
  assumes "\<forall>rq. net 0 rq = Inr r" and "resp_ok r" and "resp_json r = Inr pointsData"
    and "truthy pointsData" and "forecastUrlOf pointsData = Inr u" and "\<not> truthy u"
  shows "fst (invoke pf net (GetForecast latitude longitude)) =
           Inr \<lparr>content = [text_block ''Failed to get forecast URL from grid point data'']\<rparr> \<and>
         map req_url (calls (snd (invoke pf net (GetForecast latitude longitude)))) =
           [pointsUrl pf latitude longitude]"
proof -
  have "makeNWSRequest pf net (JString (pointsUrl pf latitude longitude)) io0 =
      (pointsData, io0\<lparr>calls := calls io0 @ [\<lparr>req_method = ''GET'', req_url = pointsUrl pf latitude longitude,
                  req_headers = [(''User-Agent'', USER_AGENT), (''Accept'', ''application/geo+json'')],
                  req_body = None\<rparr>]\<rparr>)"
    using assms by (intro makeNWSRequest_data) (simp_all add: io0_def)
  then show ?thesis
    using assms by (simp add: get_forecast_def io0_def)
qed

theorem forecast_url_missing_witness:
  "fst (invoke node_ascii (replies (json_response 200 (JObject [(''properties'', JObject [])])))
         (GetForecast 40 (- 75))) =
     Inr \<lparr>content = [text_block ''Failed to get forecast URL from grid point data'']\<rparr> \<and>
   map req_url (calls (snd (invoke node_ascii
       (replies (json_response 200 (JObject [(''properties'', JObject [])]))) (GetForecast 40 (- 75))))) =
     [''https://api.weather.gov/points/40.0000,-75.0000'']"
  using forecast_url_missing [of "replies (json_response 200 (JObject [(''properties'', JObject [])]))"
      "json_response 200 (JObject [(''properties'', JObject [])])"
      "JObject [(''properties'', JObject [])]" JUndefined node_ascii 40 "- 75"]
  by (simp add: replies_def json_response_def resp_ok_def forecastUrlOf_def bind_r_def get_prop_opt_def
      pointsUrl_sample)

text \<open>
  C5. Every response a handler returns, on each of its paths, has exactly one content block,
  and its type is \<^verbatim>\<open>text\<close>. (An invocation that throws returns no response.)
\<close>

theorem one_text_block:
  assumes "fst (invoke pf net c) = Inr r"
  shows "\<exists>t. r = \<lparr>content = [text_block t]\<rparr>"
proof (cases c)
  case (GetAlerts st)
  then show ?thesis
    using assms get_alerts_one_block [of pf net st io0 r "snd (get_alerts pf net st io0)"]
    by (simp add: prod_eq_iff)
next
  case (GetForecast la lo)
  then show ?thesis
    using assms get_forecast_one_block [of pf net la lo io0 r "snd (get_forecast pf net la lo io0)"]
    by (simp add: prod_eq_iff)
next
  case (RegisterNotification a b c)
  then show ?thesis
    using assms register_notification_one_block [of pf net a b c io0] by auto
next
  case (GetUserNotifications a)
  then show ?thesis
    using assms get_user_notifications_one_block [of pf net a io0] by auto
next
  case GetLatestTokenPrice
  then show ?thesis
    using assms get_latest_token_price_one_block [of pf net io0] by auto
qed

theorem one_text_block_witness:
  "fst (invoke node_ascii (replies (text_response 503 ''Service Unavailable'')) (GetAlerts ''ca'')) =
     Inr \<lparr>content = [text_block ''Failed to retrieve alerts data'']\<rparr> \<and>
   (\<exists>t. \<lparr>content = [text_block ''Failed to retrieve alerts data'']\<rparr> = \<lparr>content = [text_block t]\<rparr>)"
proof -
  have e: "fst (invoke node_ascii (replies (text_response 503 ''Service Unavailable'')) (GetAlerts ''ca'')) =
     Inr \<lparr>content = [text_block ''Failed to retrieve alerts data'']\<rparr>"
    by (simp add: get_alerts_def makeNWSRequest_def fetch_def replies_def text_response_def
        resp_ok_def io0_def Let_def)
  show ?thesis
    using e one_text_block [OF e] by simp
qed

text \<open>
  C6. An alert feature whose properties object has none of \<^verbatim>\<open>event\<close>, \<^verbatim>\<open>areaDesc\<close>,
  \<^verbatim>\<open>severity\<close>, \<^verbatim>\<open>status\<close> and \<^verbatim>\<open>headline\<close> (whatever other keys the feature and its
  properties hold) formats to the six lines \<^verbatim>\<open>Event: Unknown\<close>, \<^verbatim>\<open>Area: Unknown\<close>,
  \<^verbatim>\<open>Severity: Unknown\<close>, \<^verbatim>\<open>Status: Unknown\<close>, \<^verbatim>\<open>Headline: No headline\<close>, \<^verbatim>\<open>---\<close>, joined
  by newlines.
\<close>

theorem formatAlert_all_absent:
  assumes "map_of feature ''properties'' = Some (JObject props)"
    and "map_of props ''event'' = None"
    and "map_of props ''areaDesc'' = None"
    and "map_of props ''severity'' = None"
    and "map_of props ''status'' = None"
    and "map_of props ''headline'' = None"
  shows "formatAlert pf (JObject feature) =
    Inr (''Event: Unknown\<newline>Area: Unknown\<newline>Severity: Unknown\<newline>'' @
         ''Status: Unknown\<newline>Headline: No headline\<newline>---'')"
  using assms
  by (simp add: formatAlert_def alertLines_def labelled_def field_or_absent bind_r_def)

theorem formatAlert_all_absent_witness:
  "formatAlert node_ascii (JObject [(''properties'', JObject [])]) =
    Inr (''Event: Unknown\<newline>Area: Unknown\<newline>Severity: Unknown\<newline>'' @
         ''Status: Unknown\<newline>Headline: No headline\<newline>---'')"
  using formatAlert_all_absent [of "[(''properties'', JObject [])]" "[]" node_ascii]
  by simp

text \<open>
  C7. The claim: whenever \<^verbatim>\<open>windDirection\<close> is absent and \<^verbatim>\<open>windSpeed\<close> is present, the wind
  line is the wind speed and one trailing space. A wind speed that is present and empty is
  not printed: the line is \<^verbatim>\<open>Wind: Unknown\<close> and the space, where the claim has the empty
  speed and the space.
\<close>

theorem wind_line_empty_speed_counterexample:
  "periodLines node_ascii (JObject [(''windSpeed'', JString [])]) ! 2 = Inr ''Wind: Unknown '' \<and>
   periodLines node_ascii (JObject [(''windSpeed'', JString [])]) ! 2 \<noteq> Inr (''Wind: '' @ [] @ '' '')"
  by (simp add: periodLines_def field_or_absent field_or_falsy bind_r_def)

text \<open>
  C7, amended. For every forecast period whose \<^verbatim>\<open>windDirection\<close> is absent and whose
  \<^verbatim>\<open>windSpeed\<close> is a string that is not empty, the wind line (the third of the period's
  lines) is \<^verbatim>\<open>Wind:\<close>, the wind speed, and a single trailing space with nothing after it.
\<close>

theorem wind_line_no_direction:
  assumes "map_of period ''windSpeed'' = Some (JString speed)" and "speed \<noteq> []"
    and "map_of period ''windDirection'' = None"
  shows "periodLines pf (JObject period) ! 2 = Inr (''Wind: '' @ speed @ '' '')"
  using assms
  by (simp add: periodLines_def field_or_absent field_or_string bind_r_def)

theorem wind_line_no_direction_witness:
  "periodLines node_ascii tonight ! 2 = Inr ''Wind: 5 mph ''"
  using wind_line_no_direction [of "[(''name'', JString ''Tonight''), (''temperature'', JNumber (Fin 40)),
              (''temperatureUnit'', JString ''F''), (''windSpeed'', JString ''5 mph''),
              (''shortForecast'', JString ''Clear'')]" "''5 mph''" node_ascii]
  by (simp add: tonight_def)

text \<open>
  C8. For a latitude in \<open>[-90, 90]\<close> and a longitude in \<open>[-180, 180]\<close>, the URL of the first
  request of \<^verbatim>\<open>get-forecast\<close> is the base, \<^verbatim>\<open>/points/\<close>, and the two coordinates separated by
  a comma, each printed with exactly four decimal places and within half a unit of the fourth
  place of the coordinate.
\<close>

theorem pointsUrl_four_decimals:
  assumes "- 90 \<le> latitude" and "latitude \<le> 90" and "- 180 \<le> longitude" and "longitude \<le> 180"
  shows "req_url (hd (calls (snd (invoke pf net (GetForecast latitude longitude))))) =
           NWS_API_BASE @ ''/points/'' @ toFixed pf 4 latitude @ '','' @ toFixed pf 4 longitude \<and>
         fixed_decimal 4 (toFixed pf 4 latitude) \<and> fixed_decimal 4 (toFixed pf 4 longitude) \<and>
         \<bar>decimal_value (toFixed pf 4 latitude) - latitude\<bar> \<le> 1 / 20000 \<and>
         \<bar>decimal_value (toFixed pf 4 longitude) - longitude\<bar> \<le> 1 / 20000"
proof -
  have "\<bar>latitude\<bar> < 10 ^ 21" and "\<bar>longitude\<bar> < 10 ^ 21"
    using assms by simp_all
  then show ?thesis
    using toFixed_value [of 4 latitude pf] toFixed_value [of 4 longitude pf]
    by (simp add: get_forecast_first_call pointsUrl_def)
qed

theorem pointsUrl_four_decimals_witness:
  "req_url (hd (calls (snd (invoke node_ascii weather_service
       (GetForecast (3888949 / 100000) (- (7703531 / 100000))))))) =
     ''https://api.weather.gov/points/38.8895,-77.0353'' \<and>
   fixed_decimal 4 ''38.8895'' \<and> fixed_decimal 4 ''-77.0353'' \<and>
   \<bar>decimal_value ''38.8895'' - 3888949 / 100000\<bar> \<le> 1 / 20000 \<and>
   \<bar>decimal_value ''-77.0353'' - (- (7703531 / 100000))\<bar> \<le> 1 / 20000"
  using pointsUrl_four_decimals [of "3888949 / 100000" "- (7703531 / 100000)" node_ascii weather_service]
  by (simp add: toFixed_sample_latitude toFixed_sample_longitude NWS_API_BASE_def)

text \<open>
  C9. For every session id, when the response of the notification service parses to a value
  whose \<^verbatim>\<open>userNotifications\<close> is absent or the empty list, \<^verbatim>\<open>get-user-notifications\<close> returns
  the single message \<^verbatim>\<open>No notifications found for session: <id>\<close>, which holds the session
  id and lists no entry.
\<close>

theorem no_notifications_message:
  assumes "\<forall>rq. net 0 rq = Inr r" and "resp_json r = Inr data"
    and "get_prop data ''userNotifications'' = Inr ns" and "ns = JUndefined \<or> ns = JArray []"
  shows "fst (invoke pf net (GetUserNotifications session_id)) =
    Inr \<lparr>content = [text_block (mark_info @ '' No notifications found for session: '' @ session_id)]\<rparr>"
  using assms
  by (auto simp add: get_user_notifications_def fetch_def io0_def bind_r_def)

theorem no_notifications_message_witness:
  "fst (invoke node_ascii (replies (json_response 200 (JObject [(''userNotifications'', JArray [])])))
      (GetUserNotifications ''abc'')) =
    Inr \<lparr>content = [text_block (mark_info @ '' No notifications found for session: '' @ ''abc'')]\<rparr>"
  using no_notifications_message [of "replies (json_response 200 (JObject [(''userNotifications'', JArray [])]))"
      "json_response 200 (JObject [(''userNotifications'', JArray [])])"
      "JObject [(''userNotifications'', JArray [])]" "JArray []" node_ascii "''abc''"]
  by (simp add: replies_def json_response_def)

text \<open>
  C10. A field of an alert's properties or of a forecast period that is present with a falsy
  value (the number zero, the empty string, \<^verbatim>\<open>null\<close>, \<^verbatim>\<open>false\<close>) is printed as its fallback,
  and the formatted alert and the formatted period are those of the same object without that
  field. A temperature of \<open>0\<close> thus gives \<^verbatim>\<open>Temperature: Unknown\<close> before the unit, and an empty
  \<^verbatim>\<open>event\<close>, \<^verbatim>\<open>areaDesc\<close>, \<^verbatim>\<open>severity\<close>, \<^verbatim>\<open>status\<close> or \<^verbatim>\<open>headline\<close> gives \<^verbatim>\<open>Unknown\<close> or,
  for the headline, \<^verbatim>\<open>No headline\<close>.
\<close>

theorem falsy_field_as_absent:
  assumes "map_of props k = Some v" and "\<not> truthy v"
    and "map_of period k' = Some v'" and "\<not> truthy v'"
  shows "formatAlert pf (JObject ((''properties'', JObject props) # feature)) =
           formatAlert pf (JObject ((''properties'', JObject (drop_field k props)) # feature)) \<and>
         formatPeriod pf (JObject period) = formatPeriod pf (JObject (drop_field k' period)) \<and>
         (k = ''event'' \<longrightarrow> alertLines pf (JObject props) ! 0 = Inr ''Event: Unknown'') \<and>
         (k = ''areaDesc'' \<longrightarrow> alertLines pf (JObject props) ! 1 = Inr ''Area: Unknown'') \<and>
         (k = ''severity'' \<longrightarrow> alertLines pf (JObject props) ! 2 = Inr ''Severity: Unknown'') \<and>
         (k = ''status'' \<longrightarrow> alertLines pf (JObject props) ! 3 = Inr ''Status: Unknown'') \<and>
         (k = ''headline'' \<longrightarrow> alertLines pf (JObject props) ! 4 = Inr ''Headline: No headline'') \<and>
         (k' = ''temperature'' \<longrightarrow>
            periodLines pf (JObject period) ! 1 =
              bind_r (field_or pf (JObject period) ''temperatureUnit'' ''F'')
                (\<lambda>u. Inr (''Temperature: Unknown'' @ degree @ u)))"
proof -
  have "alertLines pf (JObject (drop_field k props)) = alertLines pf (JObject props)"
    by (simp add: alertLines_def field_or_drop_falsy [OF assms(1,2)])
  then have alert: "formatAlert pf (JObject ((''properties'', JObject props) # feature)) =
           formatAlert pf (JObject ((''properties'', JObject (drop_field k props)) # feature))"
    by (simp add: formatAlert_def bind_r_def)
  have "periodLines pf (JObject (drop_field k' period)) = periodLines pf (JObject period)"
    by (simp add: periodLines_def field_or_drop_falsy [OF assms(3,4)])
  then have period: "formatPeriod pf (JObject period) = formatPeriod pf (JObject (drop_field k' period))"
    by (simp add: formatPeriod_def)
  have temperature: "k' = ''temperature'' \<longrightarrow>
            periodLines pf (JObject period) ! 1 =
              bind_r (field_or pf (JObject period) ''temperatureUnit'' ''F'')
                (\<lambda>u. Inr (''Temperature: Unknown'' @ degree @ u))"
  proof
    assume e: "k' = ''temperature''"
    show "periodLines pf (JObject period) ! 1 =
              bind_r (field_or pf (JObject period) ''temperatureUnit'' ''F'')
                (\<lambda>u. Inr (''Temperature: Unknown'' @ degree @ u))"
      using assms(3,4) unfolding e by (rule temperature_line_falsy)
  qed
  from alert period alertLines_falsy [OF assms(1,2), of pf] temperature
  show ?thesis
    by (elim conjE) (intro conjI; assumption)
qed

theorem falsy_field_as_absent_witness:
  "formatAlert node_ascii (JObject [(''properties'',
       JObject [(''event'', JString ''Flood Warning''), (''headline'', JString [])])]) =
     formatAlert node_ascii (JObject [(''properties'', JObject [(''event'', JString ''Flood Warning'')])]) \<and>
   formatPeriod node_ascii (JObject [(''name'', JString ''Tonight''), (''temperature'', JNumber (Fin 0)),
       (''temperatureUnit'', JString ''C'')]) =
     formatPeriod node_ascii (JObject [(''name'', JString ''Tonight''), (''temperatureUnit'', JString ''C'')]) \<and>
   alertLines node_ascii (JObject [(''event'', JString ''Flood Warning''), (''headline'', JString [])]) ! 4 =
     Inr ''Headline: No headline'' \<and>
   periodLines node_ascii (JObject [(''name'', JString ''Tonight''), (''temperature'', JNumber (Fin 0)),
       (''temperatureUnit'', JString ''C'')]) ! 1 = Inr (''Temperature: Unknown'' @ degree @ ''C'')"
  using falsy_field_as_absent [of
      "[(''event'', JString ''Flood Warning''), (''headline'', JString [])]" "''headline''" "JString []"
      "[(''name'', JString ''Tonight''), (''temperature'', JNumber (Fin 0)), (''temperatureUnit'', JString ''C'')]"
      "''temperature''" "JNumber (Fin 0)"
      node_ascii "[]"]
  by (simp add: drop_field_def field_or_string bind_r_def)

end
